theory Spec2Isabelle
  imports Main
begin

section \<open>The browser as seen by ThemeManager\<close>

text \<open>
  The theme code of \<^verbatim>\<open>script.js\<close> (lines 15 and 26 to 142) reads and writes four things
  of the browser: the entry of \<^verbatim>\<open>localStorage\<close>, the media query
  \<^verbatim>\<open>(prefers-color-scheme: dark)\<close>, the attributes of \<^verbatim>\<open>document.documentElement\<close>
  and two elements of the page, \<^verbatim>\<open>#darkModeToggle\<close> and \<^verbatim>\<open>.theme-toggle-label\<close>.
  A JavaScript exception is a value of \<open>exn\<close>; a statement that raises leaves the
  effects of the statements before it in place.
\<close>

datatype exn = TypeError | SecurityError | QuotaExceededError

text \<open>
  Web Storage as the page can meet it: working; readable with every write refused
  (\<^verbatim>\<open>setItem\<close> raises \<^verbatim>\<open>QuotaExceededError\<close>); or denied, where every access raises
  \<^verbatim>\<open>SecurityError\<close>.
\<close>

datatype storage_mode = Functional | WriteFails | Denied

record toggle_el =
  checked :: bool
  attributes :: "string \<rightharpoonup> string"
  changeListeners :: nat

record label_el =
  transform :: string
  position :: string
  ripples :: nat

datatype timer = ResetScale | RemoveRipple

record browser =
  storageMode :: storage_mode
  localStorage :: "string \<rightharpoonup> string"
  prefersDark :: bool
  rootAttributes :: "string \<rightharpoonup> string"
  darkModeToggle :: "toggle_el option"
  toggleLabel :: "label_el option"
  mediaListeners :: nat
  timers :: "(nat \<times> timer) list"

text \<open>A ThemeManager object: its one field, and the page it lives in.\<close>

record manager =
  currentTheme :: string
  world :: browser

type_synonym ('a, 's) act = "'s \<Rightarrow> (exn + 'a) \<times> 's"

definition ret :: "'a \<Rightarrow> ('a, 's) act" where
  "ret x s = (Inr x, s)"

definition thenDo :: "('a, 's) act \<Rightarrow> ('a \<Rightarrow> ('b, 's) act) \<Rightarrow> ('b, 's) act" where
  "thenDo f g s = (case f s of (Inl e, s') \<Rightarrow> (Inl e, s') | (Inr x, s') \<Rightarrow> g x s')"

definition onPage :: "('a, browser) act \<Rightarrow> ('a, manager) act" where
  "onPage f m = (case f (world m) of (r, b) \<Rightarrow> (r, m\<lparr>world := b\<rparr>))"

subsection \<open>Browser primitives\<close>

definition localStorage_getItem :: "string \<Rightarrow> (string option, browser) act" where
  "localStorage_getItem k b =
     (case storageMode b of
        Denied \<Rightarrow> (Inl SecurityError, b)
      | WriteFails \<Rightarrow> (Inr (localStorage b k), b)
      | Functional \<Rightarrow> (Inr (localStorage b k), b))"

definition localStorage_setItem :: "string \<Rightarrow> string \<Rightarrow> (unit, browser) act" where
  "localStorage_setItem k v b =
     (case storageMode b of
        Denied \<Rightarrow> (Inl SecurityError, b)
      | WriteFails \<Rightarrow> (Inl QuotaExceededError, b)
      | Functional \<Rightarrow> (Inr (), b\<lparr>localStorage := (localStorage b)(k \<mapsto> v)\<rparr>))"

definition matchMedia_matches :: "(bool, browser) act" where
  "matchMedia_matches b = (Inr (prefersDark b), b)"

definition documentElement_setAttribute :: "string \<Rightarrow> string \<Rightarrow> (unit, browser) act" where
  "documentElement_setAttribute k v b =
     (Inr (), b\<lparr>rootAttributes := (rootAttributes b)(k \<mapsto> v)\<rparr>)"

text \<open>JavaScript truthiness of a \<^verbatim>\<open>string|null\<close>: null and the empty string are falsy.\<close>

definition truthy :: "string option \<Rightarrow> bool" where
  "truthy v = (case v of None \<Rightarrow> False | Some s \<Rightarrow> s \<noteq> [])"

section \<open>ThemeManager\<close>

text \<open>\<^verbatim>\<open>getStoredTheme() { return localStorage.getItem('theme'); }\<close>\<close>

definition getStoredTheme :: "(string option, browser) act" where
  "getStoredTheme = localStorage_getItem ''theme''"

text \<open>\<^verbatim>\<open>getPreferredTheme()\<close>: \<^verbatim>\<open>matches ? 'dark' : 'light'\<close>.\<close>

definition getPreferredTheme :: "(string, browser) act" where
  "getPreferredTheme =
     thenDo matchMedia_matches (\<lambda>matches. ret (if matches then ''dark'' else ''light''))"

text \<open>
  The right-hand side of line 28, \<^verbatim>\<open>this.getStoredTheme() || this.getPreferredTheme()\<close>:
  the second operand is evaluated only when the first is falsy.
\<close>

definition initialTheme :: "(string, browser) act" where
  "initialTheme =
     thenDo getStoredTheme
       (\<lambda>storedTheme. case storedTheme of
            None \<Rightarrow> getPreferredTheme
          | Some s \<Rightarrow> if truthy (Some s) then ret s else getPreferredTheme)"

text \<open>
  \<^verbatim>\<open>updateToggleState()\<close>: \<^verbatim>\<open>darkModeToggle\<close> is the result of
  \<^verbatim>\<open>document.getElementById\<close>, null when the page has no such element; the first
  statement of either branch then raises a TypeError.
\<close>

definition updateToggleState :: "(unit, manager) act" where
  "updateToggleState m =
     (case darkModeToggle (world m) of
        None \<Rightarrow> (Inl TypeError, m)
      | Some t \<Rightarrow>
          if currentTheme m = ''dark''
          then (Inr (), m\<lparr>world := (world m)\<lparr>darkModeToggle :=
                  Some (t\<lparr>checked := True,
                          attributes := (attributes t)(''aria-label'' \<mapsto> ''Switch to light mode'')\<rparr>)\<rparr>\<rparr>)
          else (Inr (), m\<lparr>world := (world m)\<lparr>darkModeToggle :=
                  Some (t\<lparr>checked := False,
                          attributes := (attributes t)(''aria-label'' \<mapsto> ''Switch to dark mode'')\<rparr>)\<rparr>\<rparr>))"

text \<open>\<^verbatim>\<open>setTheme(theme)\<close>, lines 52 to 57, statement by statement.\<close>

definition setTheme :: "string \<Rightarrow> (unit, manager) act" where
  "setTheme theme =
     thenDo (onPage (documentElement_setAttribute ''data-theme'' theme)) (\<lambda>_.
     thenDo (onPage (localStorage_setItem ''theme'' theme)) (\<lambda>_.
     thenDo (\<lambda>m. (Inr (), m\<lparr>currentTheme := theme\<rparr>)) (\<lambda>_.
     updateToggleState)))"

text \<open>
  \<^verbatim>\<open>addToggleAnimation()\<close>: \<^verbatim>\<open>document.querySelector('.theme-toggle-label')\<close> may be
  null, and \<^verbatim>\<open>toggleLabel.style\<close> then raises. The two \<^verbatim>\<open>setTimeout\<close> calls are kept
  as pending timers with their delays.
\<close>

definition addToggleAnimation :: "(unit, manager) act" where
  "addToggleAnimation m =
     (case toggleLabel (world m) of
        None \<Rightarrow> (Inl TypeError, m)
      | Some l \<Rightarrow>
          (Inr (), m\<lparr>world := (world m)\<lparr>
             toggleLabel := Some (l\<lparr>transform := ''scale(0.95)'', position := ''relative'',
                                     ripples := Suc (ripples l)\<rparr>),
             timers := timers (world m) @ [(150, ResetScale), (600, RemoveRipple)]\<rparr>\<rparr>))"

definition toggleTheme :: "(unit, manager) act" where
  "toggleTheme =
     thenDo (\<lambda>m. setTheme (if currentTheme m = ''dark'' then ''light'' else ''dark'') m) (\<lambda>_.
     addToggleAnimation)"

text \<open>The two \<^verbatim>\<open>addEventListener\<close> calls of \<^verbatim>\<open>init()\<close>.\<close>

definition addChangeListener :: "(unit, manager) act" where
  "addChangeListener m =
     (case darkModeToggle (world m) of
        None \<Rightarrow> (Inl TypeError, m)
      | Some t \<Rightarrow> (Inr (), m\<lparr>world := (world m)\<lparr>darkModeToggle :=
                     Some (t\<lparr>changeListeners := Suc (changeListeners t)\<rparr>)\<rparr>\<rparr>))"

definition addMediaListener :: "(unit, manager) act" where
  "addMediaListener m =
     (Inr (), m\<lparr>world := (world m)\<lparr>mediaListeners := Suc (mediaListeners (world m))\<rparr>\<rparr>)"

definition init :: "(unit, manager) act" where
  "init =
     thenDo (\<lambda>m. setTheme (currentTheme m) m) (\<lambda>_.
     thenDo addChangeListener (\<lambda>_.
     addMediaListener))"

text \<open>
  The listener of lines 136 to 140, with \<^verbatim>\<open>e.matches\<close> as its argument:
  \<^verbatim>\<open>if (!this.getStoredTheme()) { this.setTheme(e.matches ? 'dark' : 'light'); }\<close>
\<close>

definition onPreferenceChange :: "bool \<Rightarrow> (unit, manager) act" where
  "onPreferenceChange matches =
     thenDo (onPage getStoredTheme) (\<lambda>storedTheme.
       if \<not> truthy storedTheme
       then setTheme (if matches then ''dark'' else ''light'')
       else ret ())"

text \<open>
  \<^verbatim>\<open>new ThemeManager()\<close>: the object exists for the caller only when the constructor
  returns; when it raises, what remains is the exception and the page as the statements
  before the raise left it.
\<close>

definition constructor :: "browser \<Rightarrow> (exn \<times> browser) + manager" where
  "constructor b =
     (case initialTheme b of
        (Inl e, b') \<Rightarrow> Inl (e, b')
      | (Inr t, b') \<Rightarrow>
          (case init \<lparr>currentTheme = t, world = b'\<rparr> of
             (Inl e, m) \<Rightarrow> Inl (e, world m)
           | (Inr _, m) \<Rightarrow> Inr m))"

subsection \<open>Events\<close>

text \<open>
  The browser runs one listener at a time, to its end or to an exception, which it
  reports without undoing anything; the next event finds the state the listener left.
  \<open>Change\<close> runs the listener of line 132, \<^verbatim>\<open>() => this.toggleTheme()\<close>. A change
  of the operating system's colour scheme updates what the media query reports and
  then calls the listener of lines 136 to 140 with the new value. The callbacks of the
  pending timers touch the label's style and its ripple child only, and are left
  pending.
\<close>

datatype event = Change | PreferenceChange bool

fun dispatch :: "event \<Rightarrow> manager \<Rightarrow> manager" where
  "dispatch Change m = snd (toggleTheme m)"
| "dispatch (PreferenceChange matches) m =
     snd (onPreferenceChange matches (m\<lparr>world := (world m)\<lparr>prefersDark := matches\<rparr>\<rparr>))"

fun run :: "event list \<Rightarrow> manager \<Rightarrow> manager" where
  "run [] m = m"
| "run (e # es) m = run es (dispatch e m)"

subsection \<open>Concrete pages\<close>

text \<open>
  A first visit: working storage with nothing stored, a light operating system, the
  toggle and its label in the page.
\<close>

definition freshBrowser :: browser where
  "freshBrowser =
     \<lparr>storageMode = Functional, localStorage = Map.empty, prefersDark = False,
      rootAttributes = Map.empty,
      darkModeToggle = Some \<lparr>checked = False, attributes = Map.empty, changeListeners = 0\<rparr>,
      toggleLabel = Some \<lparr>transform = [], position = [], ripples = 0\<rparr>,
      mediaListeners = 0, timers = []\<rparr>"

text \<open>The manager that \<^verbatim>\<open>new ThemeManager()\<close> builds on the first visit.\<close>

definition loadedManager :: manager where
  "loadedManager =
     \<lparr>currentTheme = ''light'',
      world = \<lparr>storageMode = Functional, localStorage = [''theme'' \<mapsto> ''light''],
               prefersDark = False, rootAttributes = [''data-theme'' \<mapsto> ''light''],
               darkModeToggle = Some \<lparr>checked = False,
                  attributes = [''aria-label'' \<mapsto> ''Switch to dark mode''], changeListeners = 1\<rparr>,
               toggleLabel = Some \<lparr>transform = [], position = [], ripples = 0\<rparr>,
               mediaListeners = 1, timers = []\<rparr>\<rparr>"

text \<open>Variations of the first visit: one thing differs in each.\<close>

definition deniedBrowser :: browser where
  "deniedBrowser = freshBrowser\<lparr>storageMode := Denied\<rparr>"

definition quotaBrowser :: browser where
  "quotaBrowser = freshBrowser\<lparr>storageMode := WriteFails\<rparr>"

definition bareBrowser :: browser where
  "bareBrowser = freshBrowser\<lparr>darkModeToggle := None\<rparr>"

definition bareManager :: manager where
  "bareManager = \<lparr>currentTheme = ''light'', world = bareBrowser\<rparr>"

definition emptyStoredBrowser :: browser where
  "emptyStoredBrowser = freshBrowser\<lparr>localStorage := [''theme'' \<mapsto> []]\<rparr>"

definition sepiaBrowser :: browser where
  "sepiaBrowser = freshBrowser\<lparr>localStorage := [''theme'' \<mapsto> ''sepia'']\<rparr>"

definition darkStoredBrowser :: browser where
  "darkStoredBrowser = freshBrowser\<lparr>localStorage := [''theme'' \<mapsto> ''dark'']\<rparr>"

definition darkSystemBrowser :: browser where
  "darkSystemBrowser = freshBrowser\<lparr>prefersDark := True\<rparr>"

section \<open>Basic facts\<close>

lemmas act_defs = ret_def thenDo_def onPage_def

lemmas prim_defs =
  localStorage_getItem_def localStorage_setItem_def matchMedia_matches_def
  documentElement_setAttribute_def

lemmas tm_defs = setTheme_def updateToggleState_def addToggleAnimation_def toggleTheme_def
  getStoredTheme_def getPreferredTheme_def initialTheme_def truthy_def
  addChangeListener_def addMediaListener_def init_def onPreferenceChange_def

lemma constructor_fresh: "constructor freshBrowser = Inr loadedManager"
  by (simp add: constructor_def freshBrowser_def loadedManager_def tm_defs act_defs prim_defs)

text \<open>No operation changes how the storage behaves.\<close>

lemma toggleTheme_storageMode [simp]:
  "storageMode (world (snd (toggleTheme m))) = storageMode (world m)"
  by (cases "storageMode (world m)"; cases "darkModeToggle (world m)"; cases "toggleLabel (world m)")
     (simp_all add: tm_defs act_defs prim_defs)

lemma onPreferenceChange_storageMode [simp]:
  "storageMode (world (snd (onPreferenceChange x m))) = storageMode (world m)"
  by (cases "storageMode (world m)"; cases "darkModeToggle (world m)")
     (simp_all add: tm_defs act_defs prim_defs)

lemma dispatch_storageMode [simp]:
  "storageMode (world (dispatch e m)) = storageMode (world m)"
  by (cases e) simp_all

lemma run_storageMode [simp]:
  "storageMode (world (run es m)) = storageMode (world m)"
  by (induction es arbitrary: m) simp_all

lemma run_append: "run (es1 @ es2) m = run es2 (run es1 m)"
  by (induction es1 arbitrary: m) simp_all

text \<open>
  With working storage \<^verbatim>\<open>toggleTheme\<close> gets past its write, whatever happens to the
  widget and the animation afterwards.
\<close>

lemma toggleTheme_functional:
  assumes "storageMode (world m) = Functional"
  shows "currentTheme (snd (toggleTheme m)) = (if currentTheme m = ''dark'' then ''light'' else ''dark'')"
    and "localStorage (world (snd (toggleTheme m))) ''theme'' = Some (currentTheme (snd (toggleTheme m)))"
  using assms
  by (cases "darkModeToggle (world m)"; cases "toggleLabel (world m)";
      simp add: tm_defs act_defs prim_defs)+

lemma onPreferenceChange_guarded:
  assumes "storageMode (world m) = Functional" "truthy (localStorage (world m) ''theme'')"
  shows "onPreferenceChange x m = (Inr (), m)"
  using assms by (simp add: onPreferenceChange_def getStoredTheme_def act_defs prim_defs)

lemma onPreferenceChange_broken:
  assumes "storageMode (world m) \<noteq> Functional"
  shows "currentTheme (snd (onPreferenceChange x m)) = currentTheme m"
  using assms
  by (cases "storageMode (world m)")
     (simp_all add: tm_defs act_defs prim_defs)

lemma dispatch_keeps_choice:
  assumes "storageMode (world m) = Functional" "truthy (localStorage (world m) ''theme'')"
  shows "truthy (localStorage (world (dispatch e m)) ''theme'')"
proof (cases e)
  case Change
  with assms(1) show ?thesis
    by (simp add: toggleTheme_functional truthy_def)
next
  case (PreferenceChange x)
  with assms show ?thesis
    by (simp add: onPreferenceChange_guarded)
qed

lemma run_keeps_choice:
  assumes "storageMode (world m) = Functional" "truthy (localStorage (world m) ''theme'')"
  shows "truthy (localStorage (world (run es m)) ''theme'')"
  using assms
  by (induction es arbitrary: m) (simp_all add: dispatch_keeps_choice)

text \<open>A constructor that returns has written to storage and found the toggle.\<close>

lemma constructor_page_works:
  assumes "constructor b = Inr m"
  shows "storageMode (world m) = Functional" and "darkModeToggle (world m) \<noteq> None"
  using assms
  by (cases "storageMode b"; cases "localStorage b ''theme''"; cases "darkModeToggle b";
      auto simp add: constructor_def tm_defs act_defs prim_defs split: if_splits)+

lemma run_changes_parity:
  assumes "storageMode (world m) = Functional"
    and "currentTheme m = ''light'' \<or> currentTheme m = ''dark''"
  shows "currentTheme (run (replicate n Change) m) =
           (if even n then currentTheme m
            else if currentTheme m = ''dark'' then ''light'' else ''dark'')"
  using assms
proof (induction n arbitrary: m)
  case 0
  then show ?case by simp
next
  case (Suc n)
  let ?m' = "snd (toggleTheme m)"
  have step: "currentTheme ?m' = (if currentTheme m = ''dark'' then ''light'' else ''dark'')"
    using Suc.prems(1) by (rule toggleTheme_functional)
  have "storageMode (world ?m') = Functional"
    using Suc.prems(1) by simp
  moreover have "currentTheme ?m' = ''light'' \<or> currentTheme ?m' = ''dark''"
    using step by simp
  ultimately have "currentTheme (run (replicate n Change) ?m') =
           (if even n then currentTheme ?m'
            else if currentTheme ?m' = ''dark'' then ''light'' else ''dark'')"
    by (rule Suc.IH)
  with step Suc.prems(2) show ?case by auto
qed

section \<open>The properties of the specification\<close>

text \<open>
  C1. After a call \<^verbatim>\<open>setTheme(v)\<close> with \<open>v\<close> one of light and dark, every surface shows
  \<open>v\<close>: the data-theme attribute of the document root, the value stored under the key
  theme (also as \<^verbatim>\<open>getStoredTheme\<close> reads it back), the current theme in memory, the
  checked state of the toggle (checked exactly when \<open>v\<close> is dark) and its aria-label
  (the switch to the other mode). "After a call" is a call that returns; in a page
  with working storage and the toggle present the call does return.
\<close>

theorem setTheme_surfaces:
  assumes "v = ''light'' \<or> v = ''dark''"
  shows "(storageMode (world m) = Functional \<and> darkModeToggle (world m) \<noteq> None
            \<longrightarrow> fst (setTheme v m) = Inr ())
       \<and> (fst (setTheme v m) = Inr () \<longrightarrow>
            rootAttributes (world (snd (setTheme v m))) ''data-theme'' = Some v
          \<and> localStorage (world (snd (setTheme v m))) ''theme'' = Some v
          \<and> fst (getStoredTheme (world (snd (setTheme v m)))) = Inr (Some v)
          \<and> currentTheme (snd (setTheme v m)) = v
          \<and> map_option checked (darkModeToggle (world (snd (setTheme v m)))) = Some (v = ''dark'')
          \<and> Option.bind (darkModeToggle (world (snd (setTheme v m)))) (\<lambda>t. attributes t ''aria-label'')
              = Some (if v = ''dark'' then ''Switch to light mode'' else ''Switch to dark mode''))"
  using assms
  by (cases "storageMode (world m)"; cases "darkModeToggle (world m)")
     (auto simp add: tm_defs act_defs prim_defs)

theorem setTheme_surfaces_witness:
  "(''dark'' = ''light'' \<or> ''dark'' = ''dark'')
 \<and> storageMode (world loadedManager) = Functional
 \<and> darkModeToggle (world loadedManager) \<noteq> None
 \<and> fst (setTheme ''dark'' loadedManager) = Inr ()
 \<and> rootAttributes (world (snd (setTheme ''dark'' loadedManager))) ''data-theme'' = Some ''dark''
 \<and> localStorage (world (snd (setTheme ''dark'' loadedManager))) ''theme'' = Some ''dark''
 \<and> currentTheme (snd (setTheme ''dark'' loadedManager)) = ''dark''
 \<and> map_option checked (darkModeToggle (world (snd (setTheme ''dark'' loadedManager)))) = Some True
 \<and> Option.bind (darkModeToggle (world (snd (setTheme ''dark'' loadedManager))))
      (\<lambda>t. attributes t ''aria-label'') = Some ''Switch to light mode''"
proof -
  have v: "''dark'' = ''light'' \<or> ''dark'' = ''dark''"
    by simp
  have p: "storageMode (world loadedManager) = Functional
         \<and> darkModeToggle (world loadedManager) \<noteq> None"
    by (simp add: loadedManager_def)
  show ?thesis
    using setTheme_surfaces [OF v, of loadedManager] p by simp
qed

text \<open>
  C2. The theme resolved at page load, line 28, follows the precedence: a stored theme
  is returned (stored dark wins over a light operating system); with nothing stored
  the operating system's preference is returned (dark for a dark system); with nothing
  stored and no dark preference reported the result is light. Resolving changes
  nothing in the page. The stored values here are the theme strings, which are not
  empty; storage is readable.
\<close>

theorem initialTheme_precedence:
  "snd (initialTheme b) = b
 \<and> (storageMode b \<noteq> Denied \<longrightarrow>
       (localStorage b ''theme'' = Some s \<and> s \<noteq> [] \<longrightarrow> initialTheme b = (Inr s, b))
     \<and> (localStorage b ''theme'' = Some ''dark'' \<and> \<not> prefersDark b \<longrightarrow>
          initialTheme b = (Inr ''dark'', b))
     \<and> (localStorage b ''theme'' = None \<longrightarrow>
          initialTheme b = (Inr (if prefersDark b then ''dark'' else ''light''), b))
     \<and> (localStorage b ''theme'' = None \<and> prefersDark b \<longrightarrow> initialTheme b = (Inr ''dark'', b))
     \<and> (localStorage b ''theme'' = None \<and> \<not> prefersDark b \<longrightarrow> initialTheme b = (Inr ''light'', b)))"
  by (cases "storageMode b"; cases "localStorage b ''theme''")
     (auto simp add: tm_defs act_defs prim_defs)

theorem initialTheme_precedence_witness:
  "storageMode darkStoredBrowser \<noteq> Denied
 \<and> localStorage darkStoredBrowser ''theme'' = Some ''dark''
 \<and> \<not> prefersDark darkStoredBrowser
 \<and> initialTheme darkStoredBrowser = (Inr ''dark'', darkStoredBrowser)
 \<and> storageMode darkSystemBrowser \<noteq> Denied
 \<and> localStorage darkSystemBrowser ''theme'' = None
 \<and> prefersDark darkSystemBrowser
 \<and> initialTheme darkSystemBrowser = (Inr ''dark'', darkSystemBrowser)
 \<and> storageMode freshBrowser \<noteq> Denied
 \<and> localStorage freshBrowser ''theme'' = None
 \<and> \<not> prefersDark freshBrowser
 \<and> initialTheme freshBrowser = (Inr ''light'', freshBrowser)"
proof -
  have a: "storageMode darkStoredBrowser \<noteq> Denied
         \<and> localStorage darkStoredBrowser ''theme'' = Some ''dark''
         \<and> \<not> prefersDark darkStoredBrowser"
    by (simp add: darkStoredBrowser_def freshBrowser_def)
  have b: "storageMode darkSystemBrowser \<noteq> Denied
         \<and> localStorage darkSystemBrowser ''theme'' = None
         \<and> prefersDark darkSystemBrowser"
    by (simp add: darkSystemBrowser_def freshBrowser_def)
  have c: "storageMode freshBrowser \<noteq> Denied
         \<and> localStorage freshBrowser ''theme'' = None
         \<and> \<not> prefersDark freshBrowser"
    by (simp add: freshBrowser_def)
  show ?thesis
    using initialTheme_precedence [of darkStoredBrowser "''dark''"]
      initialTheme_precedence [of darkSystemBrowser "''dark''"]
      initialTheme_precedence [of freshBrowser "''dark''"] a b c
    by simp
qed

text \<open>
  C3. Starting from the manager a page load built, with a current theme that is light
  or dark, any number of toggles alternates the current theme: after \<open>n\<close> toggles it
  is the initial value for even \<open>n\<close> and the other value for odd \<open>n\<close>; from there one
  more toggle takes light to dark and dark to light, never leaves the value as it was,
  and two more bring it back.
\<close>

theorem toggle_alternates:
  assumes "constructor b = Inr m"
    and "currentTheme m = ''light'' \<or> currentTheme m = ''dark''"
  shows "currentTheme (run (replicate n Change) m) =
           (if even n then currentTheme m
            else if currentTheme m = ''dark'' then ''light'' else ''dark'')
       \<and> (currentTheme (run (replicate n Change) m) = ''light'' \<longrightarrow>
            currentTheme (snd (toggleTheme (run (replicate n Change) m))) = ''dark'')
       \<and> (currentTheme (run (replicate n Change) m) = ''dark'' \<longrightarrow>
            currentTheme (snd (toggleTheme (run (replicate n Change) m))) = ''light'')
       \<and> currentTheme (snd (toggleTheme (run (replicate n Change) m)))
            \<noteq> currentTheme (run (replicate n Change) m)
       \<and> currentTheme (snd (toggleTheme (snd (toggleTheme (run (replicate n Change) m)))))
            = currentTheme (run (replicate n Change) m)"
proof -
  let ?k = "run (replicate n Change) m"
  have f: "storageMode (world m) = Functional"
    using assms(1) by (rule constructor_page_works)
  have alt: "currentTheme ?k =
           (if even n then currentTheme m
            else if currentTheme m = ''dark'' then ''light'' else ''dark'')"
    using f assms(2) by (rule run_changes_parity)
  have fk: "storageMode (world ?k) = Functional"
    using f by simp
  have one: "currentTheme (snd (toggleTheme ?k)) =
               (if currentTheme ?k = ''dark'' then ''light'' else ''dark'')"
    using fk by (rule toggleTheme_functional)
  have fk': "storageMode (world (snd (toggleTheme ?k))) = Functional"
    using fk by simp
  have two: "currentTheme (snd (toggleTheme (snd (toggleTheme ?k)))) =
               (if currentTheme (snd (toggleTheme ?k)) = ''dark'' then ''light'' else ''dark'')"
    using fk' by (rule toggleTheme_functional)
  have dom: "currentTheme ?k = ''light'' \<or> currentTheme ?k = ''dark''"
    using alt assms(2) by auto
  show ?thesis
    using alt one two dom by auto
qed

theorem toggle_alternates_witness:
  "constructor freshBrowser = Inr loadedManager
 \<and> (currentTheme loadedManager = ''light'' \<or> currentTheme loadedManager = ''dark'')
 \<and> currentTheme (run (replicate 3 Change) loadedManager) = ''dark''
 \<and> currentTheme (snd (toggleTheme (run (replicate 3 Change) loadedManager))) = ''light''"
proof -
  have c: "constructor freshBrowser = Inr loadedManager"
    by (rule constructor_fresh)
  have l: "currentTheme loadedManager = ''light''"
    by (simp add: loadedManager_def)
  have d: "currentTheme loadedManager = ''light'' \<or> currentTheme loadedManager = ''dark''"
    using l by simp
  show ?thesis
    using toggle_alternates [OF c d, of 3] c l by simp
qed

text \<open>
  C4. In every run of events that contains a toggle, a later change of the operating
  system's preference leaves the current theme as it is, from any manager and through
  any events before and after the toggle. With working storage the toggle has stored
  the user's choice, the guard of the listener is false at every later point, and the
  listener returns without calling \<^verbatim>\<open>setTheme\<close>: it changes nothing at all.
\<close>

theorem choice_outlives_preference_change:
  "currentTheme (snd (onPreferenceChange matches (run (es1 @ Change # es2) m)))
     = currentTheme (run (es1 @ Change # es2) m)
 \<and> currentTheme (dispatch (PreferenceChange matches) (run (es1 @ Change # es2) m))
     = currentTheme (run (es1 @ Change # es2) m)
 \<and> (storageMode (world m) = Functional \<longrightarrow>
       truthy (localStorage (world (run (es1 @ Change # es2) m)) ''theme'')
     \<and> onPreferenceChange matches (run (es1 @ Change # es2) m)
         = (Inr (), run (es1 @ Change # es2) m))"
proof -
  let ?a = "run es1 m"
  let ?t = "dispatch Change ?a"
  let ?k = "run (es1 @ Change # es2) m"
  have k: "?k = run es2 ?t"
    by (simp add: run_append)
  have works: "truthy (localStorage (world ?k) ''theme'')
             \<and> (\<forall>x b. onPreferenceChange x (?k\<lparr>world := (world ?k)\<lparr>prefersDark := b\<rparr>\<rparr>)
                   = (Inr (), ?k\<lparr>world := (world ?k)\<lparr>prefersDark := b\<rparr>\<rparr>))
             \<and> (\<forall>x. onPreferenceChange x ?k = (Inr (), ?k))"
    if f: "storageMode (world m) = Functional"
  proof -
    have fa: "storageMode (world ?a) = Functional"
      using f by simp
    have "truthy (localStorage (world ?t) ''theme'')"
      using fa by (simp add: toggleTheme_functional truthy_def)
    moreover have "storageMode (world ?t) = Functional"
      using f by simp
    ultimately have tk: "truthy (localStorage (world ?k) ''theme'')"
      unfolding k by (rule run_keeps_choice [rotated])
    have fk: "storageMode (world ?k) = Functional"
      using f by simp
    show ?thesis
      using tk fk by (simp add: onPreferenceChange_guarded)
  qed
  have same: "currentTheme (snd (onPreferenceChange x (?k\<lparr>world := (world ?k)\<lparr>prefersDark := b\<rparr>\<rparr>)))
                = currentTheme ?k" for x b
  proof (cases "storageMode (world m) = Functional")
    case True
    then show ?thesis using works by simp
  next
    case False
    then have "storageMode (world (?k\<lparr>world := (world ?k)\<lparr>prefersDark := b\<rparr>\<rparr>)) \<noteq> Functional"
      by simp
    then have "currentTheme (snd (onPreferenceChange x (?k\<lparr>world := (world ?k)\<lparr>prefersDark := b\<rparr>\<rparr>)))
                 = currentTheme (?k\<lparr>world := (world ?k)\<lparr>prefersDark := b\<rparr>\<rparr>)"
      by (rule onPreferenceChange_broken)
    then show ?thesis by simp
  qed
  have same': "currentTheme (snd (onPreferenceChange matches ?k)) = currentTheme ?k"
  proof (cases "storageMode (world m) = Functional")
    case True
    then show ?thesis using works by simp
  next
    case False
    then have "storageMode (world ?k) \<noteq> Functional"
      by simp
    then show ?thesis
      by (rule onPreferenceChange_broken)
  qed
  have d: "currentTheme (dispatch (PreferenceChange matches) ?k) = currentTheme ?k"
    using same [of matches matches] by simp
  show ?thesis
    using same' d works by blast
qed

theorem choice_outlives_preference_change_witness:
  "storageMode (world loadedManager) = Functional
 \<and> currentTheme (run ([] @ Change # []) loadedManager) = ''dark''
 \<and> currentTheme (dispatch (PreferenceChange False) (run ([] @ Change # []) loadedManager)) = ''dark''
 \<and> onPreferenceChange False (run ([] @ Change # []) loadedManager)
     = (Inr (), run ([] @ Change # []) loadedManager)"
proof -
  have f: "storageMode (world loadedManager) = Functional"
    by (simp add: loadedManager_def)
  have c: "currentTheme (run ([] @ Change # []) loadedManager) = ''dark''"
    by (simp add: loadedManager_def tm_defs act_defs prim_defs)
  show ?thesis
    using choice_outlives_preference_change [of False "[]" "[]" loadedManager] f c by simp
qed

text \<open>
  C5. Before any toggle, a change of the operating system's preference should change
  the current theme to the new value; the comment above the listener says the same
  ("only applies if user hasn't manually set a preference"). On a first visit with a
  light system the constructor resolves light, and \<^verbatim>\<open>init\<close> stores it; when the system
  then turns dark, with no toggle in between, the current theme and the data-theme
  attribute are still light.
\<close>

theorem preference_change_ignored_after_load:
  "constructor freshBrowser = Inr loadedManager
 \<and> currentTheme loadedManager = ''light''
 \<and> currentTheme (dispatch (PreferenceChange True) loadedManager) = ''light''
 \<and> rootAttributes (world (dispatch (PreferenceChange True) loadedManager)) ''data-theme''
     = Some ''light''"
  by (simp add: constructor_fresh)
     (simp add: loadedManager_def tm_defs act_defs prim_defs)

text \<open>
  C6. On a page load with working storage, initialisation itself stores the resolved
  theme: when the constructor returns, the value under the key theme is the resolved
  theme, which is not empty. From then on, through any events, \<^verbatim>\<open>getStoredTheme\<close>
  does not return null, the guard of the preference listener is false, and the
  listener changes nothing: a change of the operating system's preference leaves the
  current theme as it is, with or without a toggle before it.
\<close>

theorem init_persists_resolved_theme:
  assumes "storageMode b = Functional" and "constructor b = Inr m"
  shows "fst (initialTheme b) = Inr (currentTheme m)
       \<and> localStorage (world m) ''theme'' = Some (currentTheme m)
       \<and> currentTheme m \<noteq> []
       \<and> fst (getStoredTheme (world (run es m))) \<noteq> Inr None
       \<and> truthy (localStorage (world (run es m)) ''theme'')
       \<and> onPreferenceChange matches (run es m) = (Inr (), run es m)
       \<and> currentTheme (dispatch (PreferenceChange matches) (run es m)) = currentTheme (run es m)"
proof -
  have a: "fst (initialTheme b) = Inr (currentTheme m)
         \<and> localStorage (world m) ''theme'' = Some (currentTheme m)
         \<and> currentTheme m \<noteq> []"
    using assms
    by (cases "localStorage b ''theme''"; cases "darkModeToggle b")
       (auto simp add: constructor_def tm_defs act_defs prim_defs split: if_splits)
  have f: "storageMode (world m) = Functional"
    using assms(2) by (rule constructor_page_works)
  have t: "truthy (localStorage (world m) ''theme'')"
    using a by (simp add: truthy_def)
  let ?k = "run es m"
  have fk: "storageMode (world ?k) = Functional"
    using f by simp
  have tk: "truthy (localStorage (world ?k) ''theme'')"
    using f t by (rule run_keeps_choice)
  have g: "fst (getStoredTheme (world ?k)) \<noteq> Inr None"
    using fk tk by (auto simp add: getStoredTheme_def prim_defs truthy_def split: option.splits)
  have h: "onPreferenceChange matches ?k = (Inr (), ?k)"
    using fk tk by (rule onPreferenceChange_guarded)
  have "onPreferenceChange matches (?k\<lparr>world := (world ?k)\<lparr>prefersDark := matches\<rparr>\<rparr>)
          = (Inr (), ?k\<lparr>world := (world ?k)\<lparr>prefersDark := matches\<rparr>\<rparr>)"
    using fk tk by (simp add: onPreferenceChange_guarded)
  then have d: "currentTheme (dispatch (PreferenceChange matches) ?k) = currentTheme ?k"
    by simp
  show ?thesis
    using a g tk h d by simp
qed

theorem init_persists_resolved_theme_witness:
  "storageMode freshBrowser = Functional
 \<and> constructor freshBrowser = Inr loadedManager
 \<and> localStorage (world loadedManager) ''theme'' = Some ''light''
 \<and> onPreferenceChange True (run [] loadedManager) = (Inr (), loadedManager)
 \<and> currentTheme (dispatch (PreferenceChange True) (run [] loadedManager)) = ''light''"
proof -
  have f: "storageMode freshBrowser = Functional"
    by (simp add: freshBrowser_def)
  have l: "currentTheme loadedManager = ''light''"
    by (simp add: loadedManager_def)
  show ?thesis
    using init_persists_resolved_theme [OF f constructor_fresh, of "[]" True] f l constructor_fresh
    by simp
qed

text \<open>
  C7. \<^verbatim>\<open>setTheme\<close> is idempotent: a second call with the same value returns what the
  first returned and leaves the data-theme attribute, the stored value, the current
  theme, the toggle's checked state and its label, and everything else, as the first
  call left them. This holds for every string and in every page, also where the call
  raises.
\<close>

theorem setTheme_idempotent:
  "setTheme v (snd (setTheme v m)) = setTheme v m"
  by (cases "storageMode (world m)"; cases "darkModeToggle (world m)")
     (simp_all add: setTheme_def updateToggleState_def act_defs prim_defs)

theorem setTheme_idempotent_witness:
  "setTheme ''dark'' (snd (setTheme ''dark'' loadedManager)) = setTheme ''dark'' loadedManager
 \<and> currentTheme (snd (setTheme ''dark'' (snd (setTheme ''dark'' loadedManager)))) = ''dark''"
  using setTheme_idempotent [of "''dark''" loadedManager]
  by (simp add: loadedManager_def tm_defs act_defs prim_defs)

text \<open>
  C8, as stated: with storage unavailable every operation still completes. It does
  not: in a page whose storage is denied the constructor raises at its first read.
\<close>

theorem storage_denied_counterexample:
  "constructor deniedBrowser = Inl (SecurityError, deniedBrowser)"
  by (simp add: constructor_def deniedBrowser_def freshBrowser_def tm_defs act_defs prim_defs)

text \<open>
  C8, amended. ThemeManager catches nothing, so a storage access that raises ends the
  operation that made it. With storage denied, the constructor, \<^verbatim>\<open>getStoredTheme\<close>
  and the preference listener raise at the read and leave the page untouched;
  \<^verbatim>\<open>setTheme\<close> and \<^verbatim>\<open>toggleTheme\<close> set the data-theme attribute and raise at the
  write, before the current theme and the toggle are updated. With storage that reads
  but refuses writes, reads return what is stored; \<^verbatim>\<open>setTheme\<close>, \<^verbatim>\<open>toggleTheme\<close> and
  the constructor set the data-theme attribute (the constructor to the theme it
  resolved) and raise at the write.
\<close>

theorem storage_failure_raises:
  "(storageMode b = Denied \<longrightarrow>
      constructor b = Inl (SecurityError, b)
    \<and> fst (getStoredTheme b) = Inl SecurityError
    \<and> onPreferenceChange matches (m\<lparr>world := b\<rparr>) = (Inl SecurityError, m\<lparr>world := b\<rparr>)
    \<and> setTheme v (m\<lparr>world := b\<rparr>) =
        (Inl SecurityError, m\<lparr>world := b\<lparr>rootAttributes := (rootAttributes b)(''data-theme'' \<mapsto> v)\<rparr>\<rparr>)
    \<and> toggleTheme (m\<lparr>world := b\<rparr>) =
        (Inl SecurityError,
         m\<lparr>world := b\<lparr>rootAttributes := (rootAttributes b)(''data-theme'' \<mapsto>
             (if currentTheme m = ''dark'' then ''light'' else ''dark''))\<rparr>\<rparr>))
 \<and> (storageMode b = WriteFails \<longrightarrow>
      getStoredTheme b = (Inr (localStorage b ''theme''), b)
    \<and> constructor b =
        Inl (QuotaExceededError,
             b\<lparr>rootAttributes := (rootAttributes b)(''data-theme'' \<mapsto>
                  (case localStorage b ''theme'' of
                     None \<Rightarrow> if prefersDark b then ''dark'' else ''light''
                   | Some s \<Rightarrow> if s = [] then if prefersDark b then ''dark'' else ''light'' else s))\<rparr>)
    \<and> setTheme v (m\<lparr>world := b\<rparr>) =
        (Inl QuotaExceededError,
         m\<lparr>world := b\<lparr>rootAttributes := (rootAttributes b)(''data-theme'' \<mapsto> v)\<rparr>\<rparr>)
    \<and> toggleTheme (m\<lparr>world := b\<rparr>) =
        (Inl QuotaExceededError,
         m\<lparr>world := b\<lparr>rootAttributes := (rootAttributes b)(''data-theme'' \<mapsto>
             (if currentTheme m = ''dark'' then ''light'' else ''dark''))\<rparr>\<rparr>))"
  by (cases "storageMode b"; cases "localStorage b ''theme''")
     (simp_all add: constructor_def tm_defs act_defs prim_defs)

theorem storage_failure_raises_witness:
  "storageMode deniedBrowser = Denied
 \<and> constructor deniedBrowser = Inl (SecurityError, deniedBrowser)
 \<and> fst (setTheme ''dark'' (loadedManager\<lparr>world := deniedBrowser\<rparr>)) = Inl SecurityError
 \<and> currentTheme (snd (setTheme ''dark'' (loadedManager\<lparr>world := deniedBrowser\<rparr>))) = ''light''
 \<and> storageMode quotaBrowser = WriteFails
 \<and> constructor quotaBrowser = Inl (QuotaExceededError,
      quotaBrowser\<lparr>rootAttributes := (rootAttributes quotaBrowser)(''data-theme'' \<mapsto> ''light'')\<rparr>)
 \<and> fst (setTheme ''dark'' (loadedManager\<lparr>world := quotaBrowser\<rparr>)) = Inl QuotaExceededError
 \<and> currentTheme (snd (setTheme ''dark'' (loadedManager\<lparr>world := quotaBrowser\<rparr>))) = ''light''"
proof -
  have d: "storageMode deniedBrowser = Denied"
    by (simp add: deniedBrowser_def)
  have q: "storageMode quotaBrowser = WriteFails \<and> localStorage quotaBrowser ''theme'' = None
         \<and> \<not> prefersDark quotaBrowser"
    by (simp add: quotaBrowser_def freshBrowser_def)
  have l: "currentTheme loadedManager = ''light''"
    by (simp add: loadedManager_def)
  show ?thesis
    using storage_failure_raises [of deniedBrowser True loadedManager "''dark''"]
      storage_failure_raises [of quotaBrowser True loadedManager "''dark''"] d q l
    by simp
qed

text \<open>
  C9, as stated: with the toggle element absent, \<^verbatim>\<open>setTheme\<close> and \<^verbatim>\<open>toggleTheme\<close>
  still complete. They do not: in a page without the element both raise a TypeError.
\<close>

theorem toggle_absent_counterexample:
  "fst (setTheme ''dark'' bareManager) = Inl TypeError
 \<and> fst (toggleTheme bareManager) = Inl TypeError"
  by (simp add: bareManager_def bareBrowser_def freshBrowser_def tm_defs act_defs prim_defs)

text \<open>
  C9, amended. With working storage, the toggle element and its label in the page,
  \<^verbatim>\<open>toggleTheme\<close> and \<^verbatim>\<open>setTheme\<close> return. With the toggle element absent,
  \<^verbatim>\<open>updateToggleState\<close> raises a TypeError and changes nothing, and neither
  \<^verbatim>\<open>setTheme\<close> nor \<^verbatim>\<open>toggleTheme\<close> returns; with working storage they raise that
  TypeError after the data-theme attribute, the stored value and the current theme
  have been set, and \<^verbatim>\<open>toggleTheme\<close> never reaches its animation.
\<close>

theorem toggle_needs_widget:
  "(storageMode (world m) = Functional \<and> darkModeToggle (world m) \<noteq> None
      \<and> toggleLabel (world m) \<noteq> None \<longrightarrow>
        fst (toggleTheme m) = Inr () \<and> fst (setTheme v m) = Inr ())
 \<and> (darkModeToggle (world m) = None \<longrightarrow>
        updateToggleState m = (Inl TypeError, m)
      \<and> fst (setTheme v m) \<noteq> Inr ()
      \<and> fst (toggleTheme m) \<noteq> Inr ()
      \<and> (storageMode (world m) = Functional \<longrightarrow>
           setTheme v m =
             (Inl TypeError,
              m\<lparr>currentTheme := v,
                world := (world m)\<lparr>
                  rootAttributes := (rootAttributes (world m))(''data-theme'' \<mapsto> v),
                  localStorage := (localStorage (world m))(''theme'' \<mapsto> v)\<rparr>\<rparr>)
         \<and> toggleTheme m =
             setTheme (if currentTheme m = ''dark'' then ''light'' else ''dark'') m))"
  by (cases "storageMode (world m)"; cases "darkModeToggle (world m)"; cases "toggleLabel (world m)")
     (simp_all add: tm_defs act_defs prim_defs)

theorem toggle_needs_widget_witness:
  "storageMode (world loadedManager) = Functional
 \<and> darkModeToggle (world loadedManager) \<noteq> None
 \<and> toggleLabel (world loadedManager) \<noteq> None
 \<and> fst (toggleTheme loadedManager) = Inr ()
 \<and> darkModeToggle (world bareManager) = None
 \<and> storageMode (world bareManager) = Functional
 \<and> updateToggleState bareManager = (Inl TypeError, bareManager)
 \<and> fst (setTheme ''dark'' bareManager) = Inl TypeError
 \<and> currentTheme (snd (setTheme ''dark'' bareManager)) = ''dark''
 \<and> fst (toggleTheme bareManager) = Inl TypeError"
proof -
  have a: "storageMode (world loadedManager) = Functional
         \<and> darkModeToggle (world loadedManager) \<noteq> None
         \<and> toggleLabel (world loadedManager) \<noteq> None"
    by (simp add: loadedManager_def)
  have b: "darkModeToggle (world bareManager) = None
         \<and> storageMode (world bareManager) = Functional
         \<and> currentTheme bareManager \<noteq> ''dark''"
    by (simp add: bareManager_def bareBrowser_def freshBrowser_def)
  show ?thesis
    using toggle_needs_widget [of loadedManager "''dark''"]
      toggle_needs_widget [of bareManager "''dark''"] a b
    by simp
qed

text \<open>
  C10, as stated: for every stored string \<open>s\<close> the initial current theme is \<open>s\<close>. The
  empty string is a stored string, and it is falsy: with it stored and a light
  operating system the constructor returns a manager whose current theme is light.
\<close>

theorem empty_stored_theme_counterexample:
  "localStorage emptyStoredBrowser ''theme'' = Some []
 \<and> map_sum fst currentTheme (constructor emptyStoredBrowser) = Inr ''light''"
  by (simp add: constructor_def emptyStoredBrowser_def freshBrowser_def tm_defs act_defs prim_defs)

text \<open>
  C10, amended. The constructor adopts every stored string that is not empty as the
  current theme, whatever it is: line 28 evaluates to it, and a constructor that
  returns has it as current theme. A stored empty string is treated as no stored
  value and the operating system's preference is used. A toggle that gets past its
  storage write (working storage, or a toggle that returns) takes dark to light and
  every other current value to dark, so the current value is then light or dark.
\<close>

theorem stored_theme_unvalidated:
  "(storageMode b \<noteq> Denied \<and> localStorage b ''theme'' = Some s \<and> s \<noteq> [] \<longrightarrow>
       fst (initialTheme b) = Inr s
     \<and> (constructor b = Inr m \<longrightarrow> currentTheme m = s))
 \<and> (storageMode b \<noteq> Denied \<and> localStorage b ''theme'' = Some [] \<longrightarrow>
       fst (initialTheme b) = Inr (if prefersDark b then ''dark'' else ''light''))
 \<and> (storageMode (world k) = Functional \<or> fst (toggleTheme k) = Inr () \<longrightarrow>
       currentTheme (snd (toggleTheme k)) = (if currentTheme k = ''dark'' then ''light'' else ''dark'')
     \<and> (currentTheme k \<noteq> ''dark'' \<longrightarrow> currentTheme (snd (toggleTheme k)) = ''dark'')
     \<and> (currentTheme (snd (toggleTheme k)) = ''light'' \<or> currentTheme (snd (toggleTheme k)) = ''dark''))"
proof -
  have i: "fst (initialTheme b) = Inr s \<and> (constructor b = Inr m \<longrightarrow> currentTheme m = s)"
    if "storageMode b \<noteq> Denied" "localStorage b ''theme'' = Some s" "s \<noteq> []"
    using that
    by (cases "storageMode b"; cases "darkModeToggle b")
       (auto simp add: constructor_def tm_defs act_defs prim_defs)
  have e: "fst (initialTheme b) = Inr (if prefersDark b then ''dark'' else ''light'')"
    if "storageMode b \<noteq> Denied" "localStorage b ''theme'' = Some []"
    using that
    by (cases "storageMode b") (simp_all add: tm_defs act_defs prim_defs)
  have f: "storageMode (world k) = Functional" if "fst (toggleTheme k) = Inr ()"
    using that
    by (cases "storageMode (world k)") (simp_all add: tm_defs act_defs prim_defs)
  have t: "currentTheme (snd (toggleTheme k)) = (if currentTheme k = ''dark'' then ''light'' else ''dark'')"
    if "storageMode (world k) = Functional"
    using that by (rule toggleTheme_functional)
  show ?thesis
    using i e f t by auto
qed

theorem stored_theme_unvalidated_witness:
  "storageMode sepiaBrowser \<noteq> Denied
 \<and> localStorage sepiaBrowser ''theme'' = Some ''sepia''
 \<and> map_sum fst currentTheme (constructor sepiaBrowser) = Inr ''sepia''
 \<and> storageMode emptyStoredBrowser \<noteq> Denied
 \<and> localStorage emptyStoredBrowser ''theme'' = Some []
 \<and> fst (initialTheme emptyStoredBrowser) = Inr ''light''
 \<and> storageMode (world (loadedManager\<lparr>currentTheme := ''sepia''\<rparr>)) = Functional
 \<and> fst (toggleTheme (loadedManager\<lparr>currentTheme := ''sepia''\<rparr>)) = Inr ()
 \<and> currentTheme (snd (toggleTheme (loadedManager\<lparr>currentTheme := ''sepia''\<rparr>))) = ''dark''"
proof -
  obtain m where m: "constructor sepiaBrowser = Inr m"
    by (simp add: constructor_def sepiaBrowser_def freshBrowser_def tm_defs act_defs prim_defs)
  have a: "storageMode sepiaBrowser \<noteq> Denied \<and> localStorage sepiaBrowser ''theme'' = Some ''sepia''"
    by (simp add: sepiaBrowser_def freshBrowser_def)
  have b: "storageMode emptyStoredBrowser \<noteq> Denied \<and> localStorage emptyStoredBrowser ''theme'' = Some []
         \<and> \<not> prefersDark emptyStoredBrowser"
    by (simp add: emptyStoredBrowser_def freshBrowser_def)
  have c: "storageMode (world (loadedManager\<lparr>currentTheme := ''sepia''\<rparr>)) = Functional
         \<and> fst (toggleTheme (loadedManager\<lparr>currentTheme := ''sepia''\<rparr>)) = Inr ()"
    by (simp add: loadedManager_def tm_defs act_defs prim_defs)
  show ?thesis
    using stored_theme_unvalidated [of sepiaBrowser "''sepia''" m "loadedManager\<lparr>currentTheme := ''sepia''\<rparr>"]
      stored_theme_unvalidated [of emptyStoredBrowser "''sepia''" m "loadedManager\<lparr>currentTheme := ''sepia''\<rparr>"]
      a b c m
    by simp
qed

end
